theory Spec2Isabelle
  imports Complex_Main "HOL-Library.Sublist"
begin

section \<open>Path arithmetic used by the resource resolver\<close>

text \<open>
  \<^verbatim>\<open>get_resource_path\<close> calls \<^verbatim>\<open>os.path.join\<close>, \<^verbatim>\<open>os.path.dirname\<close> and
  \<^verbatim>\<open>os.path.abspath\<close>. They belong to the Python standard library, not to the
  application; they are modelled here in their POSIX flavour (separator \<open>/\<close>), statement
  by statement after \<^verbatim>\<open>posixpath\<close>. Paths are byte strings.
\<close>

definition isabs :: "string \<Rightarrow> bool" where
  "isabs p = (case p of [] \<Rightarrow> False | c # _ \<Rightarrow> c = CHR ''/'')"

text \<open>\<^verbatim>\<open>os.path.join(a, b)\<close> with one trailing component, the only arity the source uses.\<close>

definition os_path_join :: "string \<Rightarrow> string \<Rightarrow> string" where
  "os_path_join a b =
     (if isabs b then b
      else if a = [] \<or> last a = CHR ''/'' then a @ b
      else a @ CHR ''/'' # b)"

text \<open>\<^verbatim>\<open>str.split('/')\<close>: never empty, one more field than there are separators.\<close>

fun split_slash :: "string \<Rightarrow> string list" where
  "split_slash [] = [[]]"
| "split_slash (c # cs) =
     (if c = CHR ''/'' then [] # split_slash cs
      else (case split_slash cs of
              [] \<Rightarrow> [[c]]
            | x # xs \<Rightarrow> (c # x) # xs))"

text \<open>\<^verbatim>\<open>'/'.join(comps)\<close>.\<close>

fun join_slash :: "string list \<Rightarrow> string" where
  "join_slash [] = []"
| "join_slash [x] = x"
| "join_slash (x # y # ys) = x @ CHR ''/'' # join_slash (y # ys)"

text \<open>
  The loop body of \<^verbatim>\<open>normpath\<close>: \<open>initial\<close> is the number of leading slashes kept
  (0, 1 or 2), \<open>new_comps\<close> the components collected so far.
\<close>

definition normpath_step :: "nat \<Rightarrow> string list \<Rightarrow> string \<Rightarrow> string list" where
  "normpath_step initial new_comps cmp =
     (if cmp = [] \<or> cmp = ''.'' then new_comps
      else if cmp \<noteq> ''..'' \<or> (initial = 0 \<and> new_comps = [])
                \<or> (new_comps \<noteq> [] \<and> last new_comps = ''..'')
           then new_comps @ [cmp]
      else if new_comps \<noteq> [] then butlast new_comps
      else new_comps)"

definition initial_slashes :: "string \<Rightarrow> nat" where
  "initial_slashes p =
     (if \<not> isabs p then 0
      else if take 2 p = ''//'' \<and> take 3 p \<noteq> ''///'' then 2
      else 1)"

definition normpath :: "string \<Rightarrow> string" where
  "normpath p =
     (if p = [] then ''.''
      else
        let initial = initial_slashes p;
            comps = foldl (normpath_step initial) [] (split_slash p);
            q = replicate initial (CHR ''/'') @ join_slash comps
        in if q = [] then ''.'' else q)"

text \<open>\<^verbatim>\<open>os.path.abspath(path)\<close>, with the working directory \<open>wd\<close> that \<^verbatim>\<open>os.getcwd()\<close> returns.\<close>

definition os_path_abspath :: "string \<Rightarrow> string \<Rightarrow> string" where
  "os_path_abspath wd p = normpath (if isabs p then p else os_path_join wd p)"

text \<open>
  \<^verbatim>\<open>os.path.dirname(p)\<close>: everything up to the last separator, with trailing separators
  stripped unless the head consists of separators only.
\<close>

definition os_path_dirname :: "string \<Rightarrow> string" where
  "os_path_dirname p =
     (let head = rev (dropWhile (\<lambda>c. c \<noteq> CHR ''/'') (rev p))
      in if head \<noteq> [] \<and> head \<noteq> replicate (length head) (CHR ''/'')
         then rev (dropWhile (\<lambda>c. c = CHR ''/'') (rev head))
         else head)"

section \<open>The canvas and its scene\<close>

text \<open>
  The 3D canvas is an object of the plotting library. The application only calls its
  methods, so the canvas is modelled by the part of its state those calls read and write:
  the actors in the scene (meshes and text overlays, in the order they were added), the
  axis indicator, the background colour, the camera and whether the rendering resources
  were released.

  The position, focal point and clipping range of the camera are double-precision numbers
  that the rendering library computes (square roots, a sine, a normalisation); they are
  not modelled, and nothing below says whether two cameras have the same coordinates. The
  camera record keeps the direction it looks along and which meshes the last reset framed
  (\<open>None\<close> until the camera is reset).

  The methods other than \<^verbatim>\<open>close\<close> are modelled as they act on a live canvas: the
  application calls them from the constructor and from the two click handlers, which the
  event loop dispatches only while the window is open.
\<close>

datatype mesh = Sphere (radius: rat)

datatype actor =
    MeshActor (shape: mesh) (color: string) (show_edges: bool) (pbr: bool) (opacity: rat)
  | TextActor (caption: string) (corner: string) (text_color: string)

record camera =
  direction :: "rat \<times> rat \<times> rat"
  framed :: "mesh list option"

record plotter =
  actors :: "actor list"
  axes_widget :: bool
  background :: string
  camera :: camera
  released :: bool

fun is_mesh :: "actor \<Rightarrow> bool" where
  "is_mesh (MeshActor _ _ _ _ _) = True"
| "is_mesh (TextActor _ _ _) = False"

definition meshes :: "plotter \<Rightarrow> mesh list" where
  "meshes p = map shape (filter is_mesh (actors p))"

definition texts :: "plotter \<Rightarrow> actor list" where
  "texts p = filter (\<lambda>a. \<not> is_mesh a) (actors p)"

text \<open>
  A plotter as \<^verbatim>\<open>QtInteractor(self)\<close> returns it: an empty scene in the library's default
  theme, looking along the isometric direction.
\<close>

definition QtInteractor :: plotter where
  "QtInteractor =
     \<lparr>actors = [], axes_widget = False, background = ''default'',
      camera = \<lparr>direction = (1, 1, 1), framed = None\<rparr>, released = False\<rparr>"

section \<open>Process state\<close>

text \<open>
  The console lines the program prints contain characters outside ASCII, so a line is
  named by a constructor: \<open>IconNotFound p\<close> is the warning \<^verbatim>\<open>Warning: Icon not found at p\<close>,
  \<open>SphereDrawn\<close> and \<open>CanvasCleared\<close> are the two confirmation lines of the button handlers.
\<close>

datatype message = IconNotFound string | SphereDrawn | CanvasCleared

text \<open>The two sidebar buttons and the two methods a click can be bound to.\<close>

datatype button = btn_sphere | btn_clear

datatype handler = PlotSphere | ClearPlot

text \<open>
  Every call into the toolkit, the plotting library or the console is appended to \<open>trace\<close>,
  so that the order of the calls a method makes can be stated.
\<close>

datatype call =
    Call_setWindowTitle string
  | Call_resize nat nat
  | Call_setWindowIcon string
  | Call_app_setStyle string
  | Call_app_setWindowIcon string
  | Call_connect button handler
  | Call_QtInteractor
  | Call_set_background string
  | Call_add_axes
  | Call_add_text string string string
  | Call_clear
  | Call_Sphere rat
  | Call_add_mesh mesh string bool bool rat
  | Call_reset_camera
  | Call_close
  | Call_accept
  | Call_print message

text \<open>
  The state of the process. The first four fields are what the program reads from its
  environment: \<^verbatim>\<open>sys._MEIPASS\<close> when the attribute exists, \<^verbatim>\<open>__file__\<close> of the entry
  script, the working directory and the set of paths that exist on disk. Fields of
  toolkit objects hold the toolkit's defaults (empty title, no icon, no connection) until
  the program sets them.
\<close>

record state =
  meipass :: "string option"
  script_file :: string
  cwd :: string
  disk :: "string set"
  stdout :: "message list"
  trace :: "call list"
  app_style :: string
  app_icon :: "string option"
  window_title :: string
  window_size :: "nat \<times> nat"
  window_icon :: "string option"
  clicked :: "button \<Rightarrow> handler option"
  plotter :: plotter
  shown :: bool

record close_event =
  accepted :: bool

definition os_path_exists :: "state \<Rightarrow> string \<Rightarrow> bool" where
  "os_path_exists s p = (p \<in> disk s)"

definition record_call :: "call \<Rightarrow> state \<Rightarrow> state" where
  "record_call c s = s\<lparr>trace := trace s @ [c]\<rparr>"

definition print :: "message \<Rightarrow> state \<Rightarrow> state" where
  "print m s = record_call (Call_print m) (s\<lparr>stdout := stdout s @ [m]\<rparr>)"

subsection \<open>Methods of the plotter, as the application calls them\<close>

definition plotter_clear :: "state \<Rightarrow> state" where
  "plotter_clear s = record_call Call_clear (s\<lparr>plotter := (plotter s)\<lparr>actors := []\<rparr>\<rparr>)"

definition plotter_add_axes :: "state \<Rightarrow> state" where
  "plotter_add_axes s = record_call Call_add_axes (s\<lparr>plotter := (plotter s)\<lparr>axes_widget := True\<rparr>\<rparr>)"

definition plotter_set_background :: "string \<Rightarrow> state \<Rightarrow> state" where
  "plotter_set_background c s =
     record_call (Call_set_background c) (s\<lparr>plotter := (plotter s)\<lparr>background := c\<rparr>\<rparr>)"

definition plotter_add_text :: "string \<Rightarrow> string \<Rightarrow> string \<Rightarrow> state \<Rightarrow> state" where
  "plotter_add_text t pos c s =
     record_call (Call_add_text t pos c)
       (s\<lparr>plotter := (plotter s)\<lparr>actors := actors (plotter s) @ [TextActor t pos c]\<rparr>\<rparr>)"

definition plotter_add_mesh :: "mesh \<Rightarrow> string \<Rightarrow> bool \<Rightarrow> bool \<Rightarrow> rat \<Rightarrow> state \<Rightarrow> state" where
  "plotter_add_mesh m c e b op s =
     record_call (Call_add_mesh m c e b op)
       (s\<lparr>plotter := (plotter s)\<lparr>actors := actors (plotter s) @ [MeshActor m c e b op]\<rparr>\<rparr>)"

definition plotter_reset_camera :: "state \<Rightarrow> state" where
  "plotter_reset_camera s =
     record_call Call_reset_camera
       (s\<lparr>plotter := (plotter s)\<lparr>camera :=
             (camera (plotter s))\<lparr>framed := Some (meshes (plotter s))\<rparr>\<rparr>\<rparr>)"

text \<open>
  \<^verbatim>\<open>close\<close> releases the rendering resources; with them the library empties the scene and
  switches the axis indicator off. The background colour stays.
\<close>

definition plotter_close :: "state \<Rightarrow> state" where
  "plotter_close s =
     record_call Call_close
       (s\<lparr>plotter := (plotter s)\<lparr>actors := [], axes_widget := False, released := True\<rparr>\<rparr>)"

definition pv_Sphere :: "rat \<Rightarrow> state \<Rightarrow> mesh \<times> state" where
  "pv_Sphere r s = (Sphere r, record_call (Call_Sphere r) s)"

definition event_accept :: "close_event \<Rightarrow> state \<Rightarrow> close_event \<times> state" where
  "event_accept e s = (e\<lparr>accepted := True\<rparr>, record_call Call_accept s)"

section \<open>The application\<close>

subsection \<open>\<^verbatim>\<open>get_resource_path\<close>\<close>

definition base_path :: "state \<Rightarrow> string" where
  "base_path s =
     (case meipass s of
        Some d \<Rightarrow> d
      | None \<Rightarrow> os_path_dirname (os_path_abspath (cwd s) (script_file s)))"

definition get_resource_path :: "state \<Rightarrow> string \<Rightarrow> string" where
  "get_resource_path s relative_path = os_path_join (base_path s) relative_path"

definition icon_relative :: string where
  "icon_relative = os_path_join ''resources'' ''icon.ico''"

subsection \<open>\<^verbatim>\<open>MainWindow\<close>\<close>

definition plot_sphere :: "state \<Rightarrow> state" where
  "plot_sphere s0 =
     (let s = plotter_clear s0;
          s = plotter_add_axes s;
          (sphere, s) = pv_Sphere (1 / 2) s;
          s = plotter_add_mesh sphere ''orange'' True False (4 / 5) s;
          s = plotter_add_text ''Model: 3D Sphere'' ''upper_left'' ''black'' s;
          s = plotter_reset_camera s
      in print SphereDrawn s)"

definition clear_plot :: "state \<Rightarrow> state" where
  "clear_plot s0 =
     (let s = plotter_clear s0;
          s = plotter_set_background ''white'' s;
          s = plotter_add_axes s
      in print CanvasCleared s)"

definition closeEvent :: "close_event \<Rightarrow> state \<Rightarrow> close_event \<times> state" where
  "closeEvent event s0 = (let s = plotter_close s0 in event_accept event s)"

text \<open>
  \<^verbatim>\<open>init_ui\<close>: of the sidebar only the two signal connections are kept; widths, heights
  and labels play no part in what follows.
\<close>

definition connect :: "button \<Rightarrow> handler \<Rightarrow> state \<Rightarrow> state" where
  "connect b h s = record_call (Call_connect b h) (s\<lparr>clicked := (clicked s)(b := Some h)\<rparr>)"

definition init_ui :: "state \<Rightarrow> state" where
  "init_ui s0 =
     (let s = connect btn_sphere PlotSphere s0;
          s = connect btn_clear ClearPlot s;
          s = record_call Call_QtInteractor (s\<lparr>plotter := QtInteractor\<rparr>);
          s = plotter_set_background ''white'' s;
          s = plotter_add_axes s
      in plotter_add_text ''Ready for Data...'' ''upper_left'' ''black'' s)"

text \<open>The title literal of the window.\<close>

definition window_title_text :: string where
  "window_title_text = ''MCM Visualization Tool (Powered by PySide6 & PyVista)''"

definition MainWindow_init :: "state \<Rightarrow> state" where
  "MainWindow_init s0 =
     (let s = record_call (Call_setWindowTitle window_title_text)
                (s0\<lparr>window_title := window_title_text\<rparr>);
          s = record_call (Call_resize 1200 800) (s\<lparr>window_size := (1200, 800)\<rparr>);
          icon_path = get_resource_path s icon_relative;
          s = (if os_path_exists s icon_path
               then record_call (Call_setWindowIcon icon_path) (s\<lparr>window_icon := Some icon_path\<rparr>)
               else print (IconNotFound icon_path) s)
      in init_ui s)"

subsection \<open>The entry block\<close>

text \<open>The application-level icon assignment of the entry block.\<close>

definition app_icon_step :: "state \<Rightarrow> state" where
  "app_icon_step s =
     (let app_icon_path = get_resource_path s icon_relative
      in if os_path_exists s app_icon_path
         then record_call (Call_app_setWindowIcon app_icon_path) (s\<lparr>app_icon := Some app_icon_path\<rparr>)
         else s)"

text \<open>The entry block up to the event loop.\<close>

definition main_startup :: "state \<Rightarrow> state" where
  "main_startup s0 =
     (let s = record_call (Call_app_setStyle ''Fusion'') (s0\<lparr>app_style := ''Fusion''\<rparr>);
          s = app_icon_step s;
          s = MainWindow_init s
      in s\<lparr>shown := True\<rparr>)"

text \<open>
  The process as the interpreter starts it, from the four things the program reads from
  its environment.
\<close>

definition process_start ::
  "string option \<Rightarrow> string \<Rightarrow> string \<Rightarrow> string set \<Rightarrow> state" where
  "process_start mp file wd ex =
     \<lparr>meipass = mp, script_file = file, cwd = wd, disk = ex,
      stdout = [], trace = [], app_style = [], app_icon = None,
      window_title = [], window_size = (0, 0), window_icon = None,
      clicked = (\<lambda>_. None), plotter = QtInteractor, shown = False\<rparr>"

text \<open>The event loop dispatches a click to the method the button is connected to.\<close>

definition click :: "button \<Rightarrow> state \<Rightarrow> state" where
  "click b s =
     (case clicked s b of
        None \<Rightarrow> s
      | Some PlotSphere \<Rightarrow> plot_sphere s
      | Some ClearPlot \<Rightarrow> clear_plot s)"

definition clicks :: "button list \<Rightarrow> state \<Rightarrow> state" where
  "clicks bs s = foldl (\<lambda>s b. click b s) s bs"

section \<open>Notions used to state the properties\<close>

text \<open>The three things \<^verbatim>\<open>get_resource_path\<close> reads.\<close>

definition environment :: "state \<Rightarrow> string option \<times> string \<times> string" where
  "environment s = (meipass s, script_file s, cwd s)"

text \<open>
  A path component as a normalised path has it: not empty, without separator, neither
  \<open>.\<close> nor \<open>..\<close>. \<open>rooted comps\<close> is the absolute path with these components;
  \<open>rooted []\<close> is the root directory.
\<close>

definition proper :: "string \<Rightarrow> bool" where
  "proper c = (c \<noteq> [] \<and> CHR ''/'' \<notin> set c \<and> c \<noteq> ''.'' \<and> c \<noteq> ''..'')"

definition rooted :: "string list \<Rightarrow> string" where
  "rooted comps = CHR ''/'' # join_slash comps"

text \<open>
  A run from source used as an example: no packaging marker, the entry script
  \<^verbatim>\<open>/home/user/MCM-Tools/main.py\<close>, the working directory \<^verbatim>\<open>/home/user\<close>, and a disk on
  which no path exists, so that the icon file is missing.
\<close>

definition source_run :: state where
  "source_run = process_start None ''/home/user/MCM-Tools/main.py'' ''/home/user'' {}"

text \<open>
  The two-state machine of the specification: a click on the sphere button leads to
  \<open>ShowingSphere\<close>, a click on the clear button to \<open>Empty\<close>, from either state.
  \<open>mode_of\<close> reads the machine's state off a canvas, and is \<open>None\<close> for a canvas that
  holds anything but no mesh or the one sphere.
\<close>

datatype mode = Empty | ShowingSphere

fun spec_click :: "mode \<Rightarrow> button \<Rightarrow> mode" where
  "spec_click _ btn_sphere = ShowingSphere"
| "spec_click _ btn_clear = Empty"

definition mode_of :: "plotter \<Rightarrow> mode option" where
  "mode_of p =
     (if meshes p = [] then Some Empty
      else if meshes p = [Sphere (1 / 2)] then Some ShowingSphere
      else None)"

text \<open>
  The start-up as the specification describes it: the base directory is one string,
  resolved once and handed to every place that needs it. \<open>MainWindow_init_at\<close> and
  \<open>main_startup_at\<close> are \<open>MainWindow_init\<close> and \<open>main_startup\<close> with the base directory
  as a parameter in place of the calls of \<^verbatim>\<open>get_resource_path\<close>.
\<close>

definition MainWindow_init_at :: "string \<Rightarrow> state \<Rightarrow> state" where
  "MainWindow_init_at base s0 =
     (let s = record_call (Call_setWindowTitle window_title_text)
                (s0\<lparr>window_title := window_title_text\<rparr>);
          s = record_call (Call_resize 1200 800) (s\<lparr>window_size := (1200, 800)\<rparr>);
          icon_path = os_path_join base icon_relative;
          s = (if os_path_exists s icon_path
               then record_call (Call_setWindowIcon icon_path) (s\<lparr>window_icon := Some icon_path\<rparr>)
               else print (IconNotFound icon_path) s)
      in init_ui s)"

definition main_startup_at :: "string \<Rightarrow> state \<Rightarrow> state" where
  "main_startup_at base s0 =
     (let s = record_call (Call_app_setStyle ''Fusion'') (s0\<lparr>app_style := ''Fusion''\<rparr>);
          app_icon_path = os_path_join base icon_relative;
          s = (if os_path_exists s app_icon_path
               then record_call (Call_app_setWindowIcon app_icon_path)
                      (s\<lparr>app_icon := Some app_icon_path\<rparr>)
               else s);
          s = MainWindow_init_at base s
      in s\<lparr>shown := True\<rparr>)"


section \<open>Basic facts about the plotter methods\<close>

lemmas plotter_ops =
  record_call_def print_def plotter_clear_def plotter_add_axes_def plotter_set_background_def
  plotter_add_text_def plotter_add_mesh_def plotter_reset_camera_def plotter_close_def
  pv_Sphere_def event_accept_def

lemma plotter_plot_sphere:
  "plotter (plot_sphere s) =
     (plotter s)\<lparr>actors := [MeshActor (Sphere (1 / 2)) ''orange'' True False (4 / 5),
                              TextActor ''Model: 3D Sphere'' ''upper_left'' ''black''],
                  axes_widget := True,
                  camera := (camera (plotter s))\<lparr>framed := Some [Sphere (1 / 2)]\<rparr>\<rparr>"
  by (simp add: plot_sphere_def plotter_ops meshes_def Let_def)

lemma plotter_clear_plot:
  "plotter (clear_plot s) =
     (plotter s)\<lparr>actors := [], background := ''white'', axes_widget := True\<rparr>"
  by (simp add: clear_plot_def plotter_ops Let_def)

section \<open>Clearing the canvas\<close>

text \<open>
  C5. After \<^verbatim>\<open>clear_plot\<close>, run from any state and in particular right after
  \<^verbatim>\<open>plot_sphere\<close>, the scene holds no mesh, the background is white and the axis indicator
  is present.
\<close>

theorem clear_plot_scene:
  "length (meshes (plotter (clear_plot s))) = 0
   \<and> background (plotter (clear_plot s)) = ''white''
   \<and> axes_widget (plotter (clear_plot s))
   \<and> length (meshes (plotter (clear_plot (plot_sphere s)))) = 0
   \<and> background (plotter (clear_plot (plot_sphere s))) = ''white''
   \<and> axes_widget (plotter (clear_plot (plot_sphere s)))"
  by (simp add: plotter_clear_plot meshes_def)

section \<open>Drawing the sphere\<close>

lemma trace_plot_sphere:
  "trace (plot_sphere s) =
     trace s @ [Call_clear, Call_add_axes, Call_Sphere (1 / 2),
                Call_add_mesh (Sphere (1 / 2)) ''orange'' True False (4 / 5),
                Call_add_text ''Model: 3D Sphere'' ''upper_left'' ''black'',
                Call_reset_camera, Call_print SphereDrawn]"
  by (simp add: plot_sphere_def plotter_ops Let_def)

lemma trace_clear_plot:
  "trace (clear_plot s) =
     trace s @ [Call_clear, Call_set_background ''white'', Call_add_axes,
                Call_print CanvasCleared]"
  by (simp add: clear_plot_def plotter_ops Let_def)

text \<open>
  Calling \<^verbatim>\<open>plot_sphere\<close> twice in a row accumulates nothing: whatever the canvas held
  before, the second call leaves the same actors, axis indicator and background as the
  first, and the camera framed on the same meshes. The coordinates of the camera after
  the second reset are outside this model.
\<close>

lemma plot_sphere_twice:
  "actors (plotter (plot_sphere (plot_sphere s))) = actors (plotter (plot_sphere s))
   \<and> axes_widget (plotter (plot_sphere (plot_sphere s))) = axes_widget (plotter (plot_sphere s))
   \<and> background (plotter (plot_sphere (plot_sphere s))) = background (plotter (plot_sphere s))
   \<and> framed (camera (plotter (plot_sphere (plot_sphere s))))
       = framed (camera (plotter (plot_sphere s)))"
  by (simp add: plotter_plot_sphere)

text \<open>
  C4. \<^verbatim>\<open>plot_sphere\<close> makes its calls in this order: clear the scene, add the axis
  indicator, build one sphere of radius one half, add it in orange with opacity four
  fifths and visible edges, add the status text, reset the camera. Afterwards the scene
  holds exactly that sphere and that text, the axis indicator is present and the camera
  frames the meshes now in the scene. The method takes no argument beyond the window and
  has no failing branch.
\<close>

theorem plot_sphere_steps:
  "trace (plot_sphere s) =
     trace s @ [Call_clear, Call_add_axes, Call_Sphere (1 / 2),
                Call_add_mesh (Sphere (1 / 2)) ''orange'' True False (4 / 5),
                Call_add_text ''Model: 3D Sphere'' ''upper_left'' ''black'',
                Call_reset_camera, Call_print SphereDrawn]
   \<and> actors (plotter (plot_sphere s)) =
       [MeshActor (Sphere (1 / 2)) ''orange'' True False (4 / 5),
        TextActor ''Model: 3D Sphere'' ''upper_left'' ''black'']
   \<and> meshes (plotter (plot_sphere s)) = [Sphere (1 / 2)]
   \<and> list_all (\<lambda>a. color a = ''orange'' \<and> 0 < opacity a \<and> opacity a < 1 \<and> show_edges a)
        (filter is_mesh (actors (plotter (plot_sphere s))))
   \<and> texts (plotter (plot_sphere s)) = [TextActor ''Model: 3D Sphere'' ''upper_left'' ''black'']
   \<and> axes_widget (plotter (plot_sphere s))
   \<and> framed (camera (plotter (plot_sphere s))) = Some (meshes (plotter (plot_sphere s)))"
  by (simp add: trace_plot_sphere plotter_plot_sphere meshes_def texts_def)

text \<open>
  C9. \<^verbatim>\<open>plot_sphere\<close> leaves the background colour as it found it, and so does the close
  handler; \<^verbatim>\<open>clear_plot\<close> and the construction of the window set it to white.
\<close>

theorem plot_sphere_keeps_background:
  "background (plotter (plot_sphere s)) = background (plotter s)
   \<and> background (plotter (snd (closeEvent e s))) = background (plotter s)
   \<and> background (plotter (clear_plot s)) = ''white''
   \<and> background (plotter (MainWindow_init s)) = ''white''"
  by (simp add: plotter_plot_sphere plotter_clear_plot closeEvent_def MainWindow_init_def
      init_ui_def connect_def plotter_ops Let_def)

section \<open>The state after construction and after clearing\<close>

lemma plotter_init_ui:
  "plotter (init_ui s) =
     QtInteractor\<lparr>background := ''white'', axes_widget := True,
                  actors := [TextActor ''Ready for Data...'' ''upper_left'' ''black'']\<rparr>"
  by (simp add: init_ui_def connect_def plotter_ops Let_def QtInteractor_def)

lemma plotter_MainWindow_init:
  "plotter (MainWindow_init s) =
     QtInteractor\<lparr>background := ''white'', axes_widget := True,
                  actors := [TextActor ''Ready for Data...'' ''upper_left'' ''black'']\<rparr>"
  by (simp add: MainWindow_init_def plotter_init_ui Let_def)

lemma plotter_main_startup:
  "plotter (main_startup s) =
     QtInteractor\<lparr>background := ''white'', axes_widget := True,
                  actors := [TextActor ''Ready for Data...'' ''upper_left'' ''black'']\<rparr>"
  by (simp add: main_startup_def Let_def plotter_MainWindow_init)

text \<open>
  C10. After \<^verbatim>\<open>clear_plot\<close> the canvas shows no text: the method removes the text with
  the rest of the scene and adds none. The freshly constructed window shows the
  placeholder \<^verbatim>\<open>Ready for Data...\<close> in the upper left corner, so the two states differ.
\<close>

theorem clear_plot_no_text:
  "texts (plotter (clear_plot s)) = []
   \<and> texts (plotter (main_startup s0)) = [TextActor ''Ready for Data...'' ''upper_left'' ''black'']
   \<and> plotter (clear_plot s) \<noteq> plotter (main_startup s0)"
proof -
  have a: "actors (plotter (clear_plot s)) = []"
    by (simp add: plotter_clear_plot)
  have b: "actors (plotter (main_startup s0)) =
             [TextActor ''Ready for Data...'' ''upper_left'' ''black'']"
    by (simp add: plotter_main_startup)
  from a b have "actors (plotter (clear_plot s)) \<noteq> actors (plotter (main_startup s0))"
    by simp
  then have "plotter (clear_plot s) \<noteq> plotter (main_startup s0)"
    by metis
  with a b show ?thesis
    by (simp add: texts_def)
qed

section \<open>Closing the window\<close>

text \<open>
  C7. The close handler releases the canvas exactly once and then accepts the event:
  its two calls are \<^verbatim>\<open>plotter.close\<close> followed by \<^verbatim>\<open>event.accept\<close>, whatever the state and the
  event. It has no failing branch.
\<close>

theorem closeEvent_releases_then_accepts:
  "trace (snd (closeEvent e s)) = trace s @ [Call_close, Call_accept]
   \<and> count_list (drop (length (trace s)) (trace (snd (closeEvent e s)))) Call_close = 1
   \<and> released (plotter (snd (closeEvent e s)))
   \<and> accepted (fst (closeEvent e s))"
  by (simp add: closeEvent_def plotter_ops Let_def)

section \<open>Path arithmetic on normalised paths\<close>

lemma split_slash_not_Nil: "split_slash p \<noteq> []"
  by (induction p) (auto split: list.split)

lemma split_slash_plain: "CHR ''/'' \<notin> set c \<Longrightarrow> split_slash c = [c]"
  by (induction c) auto

lemma split_slash_field:
  "CHR ''/'' \<notin> set c \<Longrightarrow> split_slash (c @ CHR ''/'' # r) = c # split_slash r"
  by (induction c) auto

lemma split_join_slash:
  "comps \<noteq> [] \<Longrightarrow> list_all (\<lambda>c. CHR ''/'' \<notin> set c) comps \<Longrightarrow>
   split_slash (join_slash comps) = comps"
  by (induction comps rule: join_slash.induct)
    (simp_all add: split_slash_plain split_slash_field)

lemma join_slash_append:
  "xs \<noteq> [] \<Longrightarrow> ys \<noteq> [] \<Longrightarrow> join_slash (xs @ ys) = join_slash xs @ CHR ''/'' # join_slash ys"
proof (induction xs rule: join_slash.induct)
  case 1
  then show ?case by simp
next
  case (2 x)
  then show ?case by (cases ys) simp_all
next
  case (3 x y zs)
  then show ?case by simp
qed

lemma normpath_step_proper: "proper c \<Longrightarrow> normpath_step n acc c = acc @ [c]"
  by (simp add: normpath_step_def proper_def)

lemma foldl_normpath_step_proper:
  "list_all proper comps \<Longrightarrow> foldl (normpath_step n) acc comps = acc @ comps"
  by (induction comps arbitrary: acc) (simp_all add: normpath_step_proper)

lemma proper_no_slash: "list_all proper comps \<Longrightarrow> list_all (\<lambda>c. CHR ''/'' \<notin> set c) comps"
  by (induction comps) (simp_all add: proper_def)

lemma join_slash_proper_hd:
  "comps \<noteq> [] \<Longrightarrow> list_all proper comps \<Longrightarrow>
   join_slash comps \<noteq> [] \<and> hd (join_slash comps) \<noteq> CHR ''/''"
proof (induction comps rule: join_slash.induct)
  case 1
  then show ?case by simp
next
  case (2 x)
  then show ?case by (cases x) (auto simp: proper_def)
next
  case (3 x y zs)
  then show ?case by (cases x) (auto simp: proper_def)
qed

lemma join_slash_proper_last:
  "comps \<noteq> [] \<Longrightarrow> list_all proper comps \<Longrightarrow>
   join_slash comps \<noteq> [] \<and> last (join_slash comps) \<noteq> CHR ''/''"
proof (induction comps rule: join_slash.induct)
  case 1
  then show ?case by simp
next
  case (2 x)
  then have "x \<noteq> []" "CHR ''/'' \<notin> set x"
    by (simp_all add: proper_def)
  then show ?case
    by (metis last_in_set join_slash.simps(2))
next
  case (3 x y zs)
  then show ?case by simp
qed

lemma initial_slashes_rooted: "list_all proper comps \<Longrightarrow> initial_slashes (rooted comps) = 1"
proof (cases comps)
  case Nil
  then show ?thesis by (simp add: initial_slashes_def rooted_def isabs_def)
next
  case (Cons c cs)
  assume "list_all proper comps"
  with Cons have "join_slash comps \<noteq> [] \<and> hd (join_slash comps) \<noteq> CHR ''/''"
    using join_slash_proper_hd [of comps] by simp
  then obtain x xs where "join_slash comps = x # xs" "x \<noteq> CHR ''/''"
    by (cases "join_slash comps") auto
  then show ?thesis
    by (simp add: initial_slashes_def rooted_def isabs_def)
qed

lemma normpath_rooted: "list_all proper comps \<Longrightarrow> normpath (rooted comps) = rooted comps"
proof (cases comps)
  case Nil
  then show ?thesis
    by (simp add: normpath_def rooted_def initial_slashes_def isabs_def normpath_step_def)
next
  case (Cons c cs)
  assume p: "list_all proper comps"
  have "split_slash (rooted comps) = [] # comps"
    using Cons p split_join_slash [of comps] proper_no_slash [of comps]
    by (simp add: rooted_def)
  moreover have "foldl (normpath_step 1) [] ([] # comps) = comps"
    using p by (simp add: normpath_step_def foldl_normpath_step_proper)
  ultimately show ?thesis
    using p by (simp add: normpath_def initial_slashes_rooted Let_def) (simp add: rooted_def)
qed

lemma rooted_snoc:
  "rooted (dir @ [name]) = (if dir = [] then CHR ''/'' # name else rooted dir @ CHR ''/'' # name)"
  by (simp add: rooted_def join_slash_append)

lemma dirname_after_slash:
  "CHR ''/'' \<notin> set name \<Longrightarrow>
   rev (dropWhile (\<lambda>c. c \<noteq> CHR ''/'') (rev (h @ CHR ''/'' # name))) = h @ [CHR ''/'']"
  by (auto simp: dropWhile_append3)

lemma os_path_dirname_rooted:
  assumes "list_all proper (dir @ [name])"
  shows "os_path_dirname (rooted (dir @ [name])) = rooted dir"
proof (cases "dir = []")
  case True
  have "CHR ''/'' \<notin> set name"
    using assms by (simp add: proper_def)
  then have "rev (dropWhile (\<lambda>c. c \<noteq> CHR ''/'') (rev ([] @ CHR ''/'' # name))) = [] @ [CHR ''/'']"
    by (rule dirname_after_slash)
  then show ?thesis
    using True by (simp add: os_path_dirname_def rooted_def)
next
  case False
  have n: "CHR ''/'' \<notin> set name"
    using assms by (simp add: proper_def)
  have d: "list_all proper dir"
    using assms by simp
  have l: "last (rooted dir) \<noteq> CHR ''/''"
    using False d join_slash_proper_last [of dir] by (simp add: rooted_def)
  have ne: "rooted dir \<noteq> []"
    by (simp add: rooted_def)
  have h: "rev (dropWhile (\<lambda>c. c \<noteq> CHR ''/'') (rev (rooted (dir @ [name])))) = rooted dir @ [CHR ''/'']"
    using False n dirname_after_slash [of name "rooted dir"] by (simp add: rooted_snoc)
  have "last (rooted dir) \<in> set (rooted dir @ [CHR ''/''])"
    using ne by simp
  then have ns: "rooted dir @ [CHR ''/''] \<noteq> replicate (length (rooted dir @ [CHR ''/''])) (CHR ''/'')"
    using l by (metis in_set_replicate)
  have "rev (dropWhile (\<lambda>c. c = CHR ''/'') (rev (rooted dir @ [CHR ''/'']))) = rooted dir"
    using ne l by (cases "rooted dir" rule: rev_cases) simp_all
  with h ns show ?thesis
    by (simp add: os_path_dirname_def Let_def del: replicate_Suc replicate.simps)
qed



lemma isabs_rooted: "isabs (rooted comps)"
  by (simp add: isabs_def rooted_def)

lemma abspath_absolute:
  "list_all proper comps \<Longrightarrow> os_path_abspath wd (rooted comps) = rooted comps"
  by (simp add: os_path_abspath_def isabs_rooted normpath_rooted)


section \<open>Resolving a resource path\<close>


lemma base_path_absolute_script:
  assumes "meipass s = None" "list_all proper (dir @ [name])"
    and "script_file s = rooted (dir @ [name])"
  shows "base_path s = rooted dir"
  using assms by (simp add: base_path_def abspath_absolute os_path_dirname_rooted)




section \<open>What the program leaves untouched\<close>

lemma base_path_environment: "environment s = environment s' \<Longrightarrow> base_path s = base_path s'"
  by (simp add: environment_def base_path_def split: option.split)

lemma environment_MainWindow_init: "environment (MainWindow_init s) = environment s"
  by (simp add: environment_def MainWindow_init_def init_ui_def connect_def plotter_ops Let_def)

lemma environment_app_icon_step: "environment (app_icon_step s) = environment s"
  by (simp add: environment_def app_icon_step_def plotter_ops Let_def)

lemma environment_main_startup: "environment (main_startup s) = environment s"
proof -
  let ?s1 = "record_call (Call_app_setStyle ''Fusion'') (s\<lparr>app_style := ''Fusion''\<rparr>)"
  have "environment (main_startup s) = environment (MainWindow_init (app_icon_step ?s1))"
    by (simp add: main_startup_def Let_def environment_def)
  also have "\<dots> = environment ?s1"
    by (simp only: environment_MainWindow_init environment_app_icon_step)
  also have "\<dots> = environment s"
    by (simp add: environment_def record_call_def)
  finally show ?thesis .
qed

lemma environment_plot_sphere: "environment (plot_sphere s) = environment s"
  by (simp add: environment_def plot_sphere_def plotter_ops Let_def)

lemma environment_clear_plot: "environment (clear_plot s) = environment s"
  by (simp add: environment_def clear_plot_def plotter_ops Let_def)

lemma environment_click: "environment (click b s) = environment s"
  by (simp add: click_def environment_plot_sphere environment_clear_plot
      split: option.split handler.split)

lemma clicks_snoc: "clicks (bs @ [b]) s = click b (clicks bs s)"
  by (simp add: clicks_def)

lemma environment_clicks: "environment (clicks bs s) = environment s"
  by (induction bs rule: rev_induct) (simp_all add: clicks_snoc environment_click, simp add: clicks_def)

lemma environment_closeEvent: "environment (snd (closeEvent e s)) = environment s"
  by (simp add: environment_def closeEvent_def plotter_ops Let_def)

lemma MainWindow_init_at_base: "MainWindow_init s = MainWindow_init_at (base_path s) s"
  by (simp add: MainWindow_init_def MainWindow_init_at_def get_resource_path_def base_path_def
      record_call_def os_path_exists_def Let_def cong: option.case_cong)

lemma base_path_app_icon_step: "base_path (app_icon_step s) = base_path s"
  by (rule base_path_environment) (rule environment_app_icon_step)

lemma main_startup_at_base: "main_startup s = main_startup_at (base_path s) s"
proof -
  let ?s1 = "record_call (Call_app_setStyle ''Fusion'') (s\<lparr>app_style := ''Fusion''\<rparr>)"
  have b: "base_path ?s1 = base_path s"
    by (rule base_path_environment) (simp add: environment_def record_call_def)
  have "main_startup s = (MainWindow_init (app_icon_step ?s1))\<lparr>shown := True\<rparr>"
    by (simp add: main_startup_def Let_def)
  also have "\<dots> = (MainWindow_init_at (base_path s) (app_icon_step ?s1))\<lparr>shown := True\<rparr>"
    by (simp only: MainWindow_init_at_base base_path_app_icon_step b)
  also have "\<dots> = main_startup_at (base_path s) s"
    using b by (simp add: main_startup_at_def app_icon_step_def get_resource_path_def Let_def)
  finally show ?thesis .
qed

section \<open>The icon at start-up\<close>

lemma app_icon_step_missing:
  "\<not> os_path_exists s (get_resource_path s icon_relative) \<Longrightarrow> app_icon_step s = s"
  by (simp add: app_icon_step_def Let_def)

lemma MainWindow_init_missing:
  assumes "\<not> os_path_exists s (get_resource_path s icon_relative)"
  shows "stdout (MainWindow_init s) = stdout s @ [IconNotFound (get_resource_path s icon_relative)]"
    and "window_icon (MainWindow_init s) = window_icon s"
    and "app_icon (MainWindow_init s) = app_icon s"
  using assms
  by (simp_all add: MainWindow_init_def init_ui_def connect_def plotter_ops Let_def
      os_path_exists_def get_resource_path_def base_path_def cong: option.case_cong)

lemma main_startup_missing:
  assumes "\<not> os_path_exists s (get_resource_path s icon_relative)"
  shows "stdout (main_startup s) = stdout s @ [IconNotFound (get_resource_path s icon_relative)]"
    and "window_icon (main_startup s) = window_icon s"
    and "app_icon (main_startup s) = app_icon s"
    and "shown (main_startup s)"
proof -
  let ?s1 = "record_call (Call_app_setStyle ''Fusion'') (s\<lparr>app_style := ''Fusion''\<rparr>)"
  have p: "get_resource_path ?s1 icon_relative = get_resource_path s icon_relative"
    by (simp add: get_resource_path_def base_path_def record_call_def cong: option.case_cong)
  then have m: "\<not> os_path_exists ?s1 (get_resource_path ?s1 icon_relative)"
    using assms by (simp add: os_path_exists_def record_call_def)
  have "main_startup s = (MainWindow_init (app_icon_step ?s1))\<lparr>shown := True\<rparr>"
    by (simp add: main_startup_def Let_def)
  then have e: "main_startup s = (MainWindow_init ?s1)\<lparr>shown := True\<rparr>"
    by (simp only: app_icon_step_missing [OF m])
  show "stdout (main_startup s) = stdout s @ [IconNotFound (get_resource_path s icon_relative)]"
    using MainWindow_init_missing(1) [OF m] by (simp add: e p) (simp add: record_call_def)
  show "window_icon (main_startup s) = window_icon s"
    using MainWindow_init_missing(2) [OF m] by (simp add: e) (simp add: record_call_def)
  show "app_icon (main_startup s) = app_icon s"
    using MainWindow_init_missing(3) [OF m] by (simp add: e) (simp add: record_call_def)
  show "shown (main_startup s)"
    by (simp add: e)
qed

lemma source_run_icon_path:
  "get_resource_path source_run icon_relative = ''/home/user/MCM-Tools/resources/icon.ico''"
proof -
  have "list_all proper ([''home'', ''user'', ''MCM-Tools''] @ [''main.py''])"
    by (simp add: proper_def)
  moreover have "script_file source_run
                   = rooted ([''home'', ''user'', ''MCM-Tools''] @ [''main.py''])"
    by (simp add: source_run_def process_start_def rooted_def)
  moreover have "meipass source_run = None"
    by (simp add: source_run_def process_start_def)
  ultimately have "base_path source_run = rooted [''home'', ''user'', ''MCM-Tools'']"
    by (rule base_path_absolute_script [rotated])
  then show ?thesis
    by (simp add: get_resource_path_def icon_relative_def rooted_def os_path_join_def isabs_def)
qed

text \<open>
  C2, as the program behaves. When the resolved icon path does not exist, neither icon
  assignment fails and no icon is set. The window-level assignment prints the warning and
  the window is constructed as usual. The application-level assignment does nothing at
  all: it prints no warning. A start-up therefore prints exactly one warning.
\<close>

theorem missing_icon_continues:
  assumes "\<not> os_path_exists s (get_resource_path s icon_relative)"
  shows "app_icon_step s = s
   \<and> stdout (MainWindow_init s) = stdout s @ [IconNotFound (get_resource_path s icon_relative)]
   \<and> window_icon (MainWindow_init s) = window_icon s
   \<and> plotter (MainWindow_init s) =
       QtInteractor\<lparr>background := ''white'', axes_widget := True,
                    actors := [TextActor ''Ready for Data...'' ''upper_left'' ''black'']\<rparr>
   \<and> stdout (main_startup s) = stdout s @ [IconNotFound (get_resource_path s icon_relative)]
   \<and> app_icon (main_startup s) = app_icon s
   \<and> window_icon (main_startup s) = window_icon s
   \<and> shown (main_startup s)"
  using assms
  by (simp add: app_icon_step_missing MainWindow_init_missing main_startup_missing
      plotter_MainWindow_init)

text \<open>
  A start-up from source on a disk without the icon file: one warning, no icon on the
  application or on the window, and the window is shown.
\<close>

theorem missing_icon_continues_witness:
  "\<not> os_path_exists source_run (get_resource_path source_run icon_relative)
   \<and> app_icon_step source_run = source_run
   \<and> stdout (main_startup source_run) = [IconNotFound ''/home/user/MCM-Tools/resources/icon.ico'']
   \<and> app_icon (main_startup source_run) = None
   \<and> window_icon (main_startup source_run) = None
   \<and> shown (main_startup source_run)"
proof -
  have m: "\<not> os_path_exists source_run (get_resource_path source_run icon_relative)"
    by (simp add: os_path_exists_def source_run_def process_start_def)
  show ?thesis
    using m missing_icon_continues [OF m]
    by (simp add: source_run_icon_path) (simp add: source_run_def process_start_def)
qed

text \<open>
  C2, as the claim states it, fails at the application-level assignment: on a disk
  without the icon file that assignment prints nothing and calls nothing.
\<close>

theorem app_icon_step_silent_counterexample:
  "\<not> os_path_exists source_run (get_resource_path source_run icon_relative)
   \<and> stdout (app_icon_step source_run) = []
   \<and> trace (app_icon_step source_run) = []"
  by (simp add: app_icon_step_def os_path_exists_def source_run_def process_start_def Let_def)

section \<open>Sequences of clicks\<close>

lemma clicked_plot_sphere: "clicked (plot_sphere s) = clicked s"
  by (simp add: plot_sphere_def plotter_ops Let_def)

lemma clicked_clear_plot: "clicked (clear_plot s) = clicked s"
  by (simp add: clear_plot_def plotter_ops Let_def)

lemma clicked_click: "clicked (click b s) = clicked s"
  by (simp add: click_def clicked_plot_sphere clicked_clear_plot
      split: option.split handler.split)

lemma clicked_clicks: "clicked (clicks bs s) = clicked s"
  by (induction bs rule: rev_induct) (simp_all add: clicks_snoc clicked_click, simp add: clicks_def)

lemma clicked_MainWindow_init:
  "clicked (MainWindow_init s) =
     (clicked s)(btn_sphere := Some PlotSphere, btn_clear := Some ClearPlot)"
  by (simp add: MainWindow_init_def init_ui_def connect_def plotter_ops Let_def)

lemma clicked_main_startup:
  "clicked (main_startup s) btn_sphere = Some PlotSphere"
  "clicked (main_startup s) btn_clear = Some ClearPlot"
  by (simp_all add: main_startup_def Let_def clicked_MainWindow_init)

lemma click_after_startup:
  "click btn_sphere (clicks bs (main_startup s)) = plot_sphere (clicks bs (main_startup s))"
  "click btn_clear (clicks bs (main_startup s)) = clear_plot (clicks bs (main_startup s))"
  by (simp_all add: click_def clicked_clicks clicked_main_startup)

lemma actors_after_clicks:
  "actors (plotter (clicks bs (main_startup s))) =
     (if bs = [] then [TextActor ''Ready for Data...'' ''upper_left'' ''black'']
      else case last bs of
             btn_sphere \<Rightarrow> [MeshActor (Sphere (1 / 2)) ''orange'' True False (4 / 5),
                             TextActor ''Model: 3D Sphere'' ''upper_left'' ''black'']
           | btn_clear \<Rightarrow> [])"
proof (cases bs rule: rev_cases)
  case Nil
  then show ?thesis
    by (simp add: clicks_def plotter_main_startup)
next
  case (snoc cs b)
  then show ?thesis
    by (cases b)
      (simp_all add: clicks_snoc click_after_startup plotter_plot_sphere plotter_clear_plot)
qed

lemma mode_after_clicks:
  "mode_of (plotter (clicks bs (main_startup s))) = Some (foldl spec_click Empty bs)"
proof (cases bs rule: rev_cases)
  case Nil
  then show ?thesis
    by (simp add: mode_of_def meshes_def actors_after_clicks)
next
  case (snoc cs b)
  then show ?thesis
    by (cases b) (simp_all add: mode_of_def meshes_def actors_after_clicks)
qed

text \<open>
  C6. Start from the constructed window and click the two buttons in any order, any
  number of times. The canvas then is in the state the two-state machine of the
  specification reaches on the same clicks: it holds no mesh, or exactly the one sphere,
  never more. What the scene holds is decided by the last click alone, and both buttons
  stay connected to their methods.
\<close>

theorem clicks_two_state_machine:
  "mode_of (plotter (clicks bs (main_startup s))) = Some (foldl spec_click Empty bs)
   \<and> (meshes (plotter (clicks bs (main_startup s))) = []
        \<or> meshes (plotter (clicks bs (main_startup s))) = [Sphere (1 / 2)])
   \<and> actors (plotter (clicks bs (main_startup s))) =
       (if bs = [] then [TextActor ''Ready for Data...'' ''upper_left'' ''black'']
        else case last bs of
               btn_sphere \<Rightarrow> [MeshActor (Sphere (1 / 2)) ''orange'' True False (4 / 5),
                               TextActor ''Model: 3D Sphere'' ''upper_left'' ''black'']
             | btn_clear \<Rightarrow> [])
   \<and> clicked (clicks bs (main_startup s)) btn_sphere = Some PlotSphere
   \<and> clicked (clicks bs (main_startup s)) btn_clear = Some ClearPlot"
proof -
  have "meshes (plotter (clicks bs (main_startup s))) = []
        \<or> meshes (plotter (clicks bs (main_startup s))) = [Sphere (1 / 2)]"
    by (simp add: meshes_def actors_after_clicks split: button.split)
  then show ?thesis
    by (simp only: mode_after_clicks actors_after_clicks clicked_clicks clicked_main_startup
        simp_thms)
qed

section \<open>The base directory during a run\<close>

text \<open>
  C8. \<^verbatim>\<open>get_resource_path\<close> returns a string and nothing else; the string depends on the
  packaging marker, the script location and the working directory only. No step of the
  program changes these, so the same relative path resolves to the same path after the
  start-up, after any sequence of clicks and after the close handler. The start-up is the
  one in which the base directory is resolved once and handed to both icon assignments,
  which therefore look for the icon at the same path.
\<close>

theorem resource_path_fixed:
  "(environment s = environment s' \<longrightarrow> get_resource_path s p = get_resource_path s' p)
   \<and> get_resource_path (clicks bs (main_startup s)) p = get_resource_path s p
   \<and> get_resource_path (snd (closeEvent e s)) p = get_resource_path s p
   \<and> main_startup s = main_startup_at (base_path s) s"
proof -
  have a: "environment s = environment s' \<longrightarrow> get_resource_path s p = get_resource_path s' p"
    using base_path_environment [of s s'] by (simp add: get_resource_path_def)
  have "environment (clicks bs (main_startup s)) = environment s"
    by (simp only: environment_clicks environment_main_startup)
  then have "base_path (clicks bs (main_startup s)) = base_path s"
    by (rule base_path_environment)
  then have b: "get_resource_path (clicks bs (main_startup s)) p = get_resource_path s p"
    by (simp add: get_resource_path_def)
  have c: "get_resource_path (snd (closeEvent e s)) p = get_resource_path s p"
    using base_path_environment [OF environment_closeEvent] by (simp add: get_resource_path_def)
  from a b c main_startup_at_base [of s] show ?thesis
    by (simp only: simp_thms)
qed

text \<open>The icon path before and after the sphere is drawn.\<close>

theorem resource_path_fixed_witness:
  "environment source_run = environment (plot_sphere source_run)
   \<and> get_resource_path source_run icon_relative
       = get_resource_path (plot_sphere source_run) icon_relative
   \<and> get_resource_path (plot_sphere source_run) icon_relative
       = ''/home/user/MCM-Tools/resources/icon.ico''"
proof -
  have e: "environment source_run = environment (plot_sphere source_run)"
    by (simp add: environment_plot_sphere)
  show ?thesis
    using e resource_path_fixed [of source_run "plot_sphere source_run" icon_relative]
    by (simp add: source_run_icon_path)
qed

end
